theory Spec2Isabelle
  imports Main
begin

section \<open>JavaScript values\<close>

text \<open>
  A JavaScript string is the list of its UTF-16 code units, each a number;
  \<open>str\<close> turns a literal of this text into such a string.  The feeds are
  JSON documents, so a property value is one of the JSON kinds.  A number is
  represented by the text that \<^verbatim>\<open>Number.prototype.toString\<close> prints for it
  (\<^verbatim>\<open>47.6\<close>, \<^verbatim>\<open>-122.33\<close>, \<^verbatim>\<open>0\<close>, \<^verbatim>\<open>NaN\<close>): the adapters only print numbers and
  test them for truthiness, never calculate with them.  An object is the list
  of its own properties in the order of \<^verbatim>\<open>Object.keys\<close>; \<^verbatim>\<open>undefined\<close> is \<open>None\<close>.
\<close>

type_synonym jsstring = "nat list"

definition codeUnit :: "char \<Rightarrow> nat" where
  "codeUnit c = of_char c"

definition str :: "string \<Rightarrow> jsstring" where
  "str s = map codeUnit s"

datatype jsnumber = Num jsstring

datatype jsval =
    JNull
  | JBool bool
  | JNumber jsnumber
  | JString jsstring
  | JArray "jsval list"
  | JObject "(jsstring \<times> jsval) list"

type_synonym props = "(jsstring \<times> jsval) list"

fun toString :: "jsnumber \<Rightarrow> jsstring" where
  "toString (Num s) = s"

text \<open>Truthiness (\<^verbatim>\<open>ToBoolean\<close>): \<^verbatim>\<open>null\<close>, \<^verbatim>\<open>false\<close>, \<^verbatim>\<open>0\<close>, \<^verbatim>\<open>NaN\<close> and the empty
  string are falsy, every array and object is truthy.\<close>

fun truthy :: "jsval \<Rightarrow> bool" where
  "truthy JNull = False"
| "truthy (JBool b) = b"
| "truthy (JNumber n) = (toString n \<noteq> str ''0'' \<and> toString n \<noteq> str ''NaN'')"
| "truthy (JString s) = (s \<noteq> [])"
| "truthy (JArray xs) = True"
| "truthy (JObject kvs) = True"

text \<open>\<^verbatim>\<open>typeof v === 'object'\<close> holds of objects, arrays and \<^verbatim>\<open>null\<close>.\<close>

fun typeof_object :: "jsval \<Rightarrow> bool" where
  "typeof_object JNull = True"
| "typeof_object (JArray xs) = True"
| "typeof_object (JObject kvs) = True"
| "typeof_object v = False"

text \<open>Property access \<^verbatim>\<open>o[k]\<close> on an own-property list.\<close>

definition getProp :: "props \<Rightarrow> jsstring \<Rightarrow> jsval option" where
  "getProp ps k = map_of ps k"

definition objectKeys :: "props \<Rightarrow> jsstring list" where
  "objectKeys ps = map fst ps"

text \<open>
  \<^verbatim>\<open>String.prototype.toLowerCase\<close>.  The letters A to Z go to a to z, and the
  Kelvin sign U+212A goes to k: these are all the characters whose lower case
  is an ASCII character.  Every other code unit is kept here.  JavaScript
  changes some of them, always into text with a character outside ASCII, so
  the two agree on whether the lower case of a string equals a given ASCII
  string, which is all the adapter asks (every candidate key is ASCII).
\<close>

definition toLowerCase_unit :: "nat \<Rightarrow> nat" where
  "toLowerCase_unit c =
     (if 65 \<le> c \<and> c \<le> 90 then c + 32
      else if c = 8490 then 107
      else c)"

definition toLowerCase :: "jsstring \<Rightarrow> jsstring" where
  "toLowerCase s = map toLowerCase_unit s"

definition startsWith :: "jsstring \<Rightarrow> jsstring \<Rightarrow> bool" where
  "startsWith s p = (take (length p) s = p)"

section \<open>ArcGIS adapter (src/services/arcgis.ts)\<close>

text \<open>\<^verbatim>\<open>Object.keys(props).find((k) => k.toLowerCase() === candidate.toLowerCase())\<close>\<close>

definition findKey :: "props \<Rightarrow> jsstring \<Rightarrow> jsstring option" where
  "findKey ps candidate =
     find (\<lambda>k. toLowerCase k = toLowerCase candidate) (objectKeys ps)"

text \<open>The body of the loop of \<^verbatim>\<open>findUrl\<close>: \<open>Some val\<close> where it returns.\<close>

definition findUrl_step :: "props \<Rightarrow> jsstring \<Rightarrow> jsstring option" where
  "findUrl_step ps candidate =
     (case findKey ps candidate of
        None \<Rightarrow> None
      | Some key \<Rightarrow>
          if key = [] then None
          else (case getProp ps key of
                  Some (JString val) \<Rightarrow> if startsWith val (str ''http'') then Some val else None
                | _ \<Rightarrow> None))"

fun findUrl :: "props \<Rightarrow> jsstring list \<Rightarrow> jsstring" where
  "findUrl ps [] = []"
| "findUrl ps (candidate # candidates) =
     (case findUrl_step ps candidate of
        Some val \<Rightarrow> val
      | None \<Rightarrow> findUrl ps candidates)"

text \<open>The body of the loop of \<^verbatim>\<open>findString\<close>.\<close>

definition findString_step :: "props \<Rightarrow> jsstring \<Rightarrow> jsstring option" where
  "findString_step ps candidate =
     (case findKey ps candidate of
        None \<Rightarrow> None
      | Some key \<Rightarrow>
          if key = [] then None
          else (case getProp ps key of
                  Some (JString val) \<Rightarrow> if val \<noteq> [] then Some val else None
                | _ \<Rightarrow> None))"

fun findString :: "props \<Rightarrow> jsstring list \<Rightarrow> jsstring" where
  "findString ps [] = []"
| "findString ps (candidate # candidates) =
     (case findString_step ps candidate of
        Some val \<Rightarrow> val
      | None \<Rightarrow> findString ps candidates)"

text \<open>The feature as \<^verbatim>\<open>interface ArcGISFeature\<close> declares it: \<^verbatim>\<open>id\<close> is optional and a
  number or a string, \<^verbatim>\<open>geometry\<close> is \<^verbatim>\<open>null\<close> or a point with its coordinate array.\<close>

datatype feature_id = IdNumber jsnumber | IdString jsstring

record ArcGISFeature =
  feature_id :: "feature_id option"
  geometry :: "jsnumber list option"
  properties :: props

text \<open>\<^verbatim>\<open>interface TrafficCamera\<close>.  The three \<^verbatim>\<open>url\<close> fields are declared strings, but
  \<^verbatim>\<open>mapFeature\<close> stores what the unchecked cast \<^verbatim>\<open>(nested as { url?: string }).url\<close>
  reads, so they are kept as JSON values.\<close>

record Location =
  latitude :: jsstring
  longitude :: jsstring

record TrafficCamera =
  cameralabel :: jsstring
  imageurl :: jsval
  video_url :: "jsval option"
  web_url :: "jsval option"
  x_coord :: jsstring
  y_coord :: jsstring
  location :: Location

text \<open>\<^verbatim>\<open>geometry?.coordinates[i]\<close>: \<^verbatim>\<open>undefined\<close> for a \<^verbatim>\<open>null\<close> geometry and past the end
  of the array.\<close>

definition coordinate :: "jsnumber list option \<Rightarrow> nat \<Rightarrow> jsnumber option" where
  "coordinate g i =
     (case g of
        None \<Rightarrow> None
      | Some cs \<Rightarrow> if i < length cs then Some (cs ! i) else None)"

text \<open>The immediately invoked arrow function of the nested fallback:
  \<^verbatim>\<open>const nested = props[name]; if (nested && typeof nested === 'object') return nested.url ?? ''; return ''\<close>.
  An array has no \<^verbatim>\<open>url\<close> property.\<close>

definition nestedUrl :: "props \<Rightarrow> jsstring \<Rightarrow> jsval" where
  "nestedUrl ps name =
     (case getProp ps name of
        None \<Rightarrow> JString []
      | Some nested \<Rightarrow>
          if truthy nested \<and> typeof_object nested then
            (case nested of
               JObject kvs \<Rightarrow>
                 (case getProp kvs (str ''url'') of
                    None \<Rightarrow> JString []
                  | Some JNull \<Rightarrow> JString []
                  | Some u \<Rightarrow> u)
             | _ \<Rightarrow> JString [])
          else JString [])"

text \<open>\<^verbatim>\<open>findUrl(props, candidates) || nested()\<close>\<close>

definition rawUrl :: "props \<Rightarrow> jsstring list \<Rightarrow> jsstring \<Rightarrow> jsval" where
  "rawUrl ps candidates name =
     (let flat = findUrl ps candidates
      in if flat \<noteq> [] then JString flat else nestedUrl ps name)"

definition imageCandidates :: "jsstring list" where
  "imageCandidates =
     map str [''imageurl'', ''image_url'', ''imagelink'', ''photo_url'', ''snapshot_url'']"

definition videoCandidates :: "jsstring list" where
  "videoCandidates =
     map str [''video_url'', ''videourl'', ''stream_url'', ''hls_url'', ''hlsurl'']"

definition webCandidates :: "jsstring list" where
  "webCandidates = map str [''web_url'', ''weburl'', ''link'', ''url'']"

definition labelCandidates :: "jsstring list" where
  "labelCandidates =
     map str [''cameralabel'', ''camera_label'', ''label'', ''name'', ''description'',
              ''camera_name'', ''title'']"

text \<open>\<^verbatim>\<open>`Camera ${feature.id ?? ''}`\<close>\<close>

definition defaultLabel :: "feature_id option \<Rightarrow> jsstring" where
  "defaultLabel i =
     str ''Camera '' @ (case i of
                          None \<Rightarrow> []
                        | Some (IdNumber n) \<Rightarrow> toString n
                        | Some (IdString s) \<Rightarrow> s)"

definition resolveLng :: "ArcGISFeature \<Rightarrow> jsstring" where
  "resolveLng feature =
     (case coordinate (geometry feature) 0 of
        Some n \<Rightarrow> toString n
      | None \<Rightarrow> findString (properties feature) (map str [''longitude'', ''lon'', ''long'', ''x'']))"

definition resolveLat :: "ArcGISFeature \<Rightarrow> jsstring" where
  "resolveLat feature =
     (case coordinate (geometry feature) 1 of
        Some n \<Rightarrow> toString n
      | None \<Rightarrow> findString (properties feature) (map str [''latitude'', ''lat'', ''y'']))"

definition orElse :: "jsstring \<Rightarrow> jsstring \<Rightarrow> jsstring" where
  "orElse a b = (if a \<noteq> [] then a else b)"

definition optionalUrl :: "jsval \<Rightarrow> jsval option" where
  "optionalUrl u = (if truthy u then Some u else None)"

definition mapFeature :: "ArcGISFeature \<Rightarrow> TrafficCamera option" where
  "mapFeature feature =
     (let ps = properties feature;
          lng = resolveLng feature;
          lat = resolveLat feature
      in if lat = [] \<or> lng = [] then None
         else
           let label = orElse (findString ps labelCandidates) (defaultLabel (feature_id feature));
               rawImageUrl = rawUrl ps imageCandidates (str ''imageurl'')
           in if \<not> truthy rawImageUrl then None
              else
                let rawVideoUrl = rawUrl ps videoCandidates (str ''video_url'');
                    rawWebUrl = rawUrl ps webCandidates (str ''web_url'');
                    xCoord = orElse (findString ps (map str [''x_coord'', ''xcoord'', ''x''])) lng;
                    yCoord = orElse (findString ps (map str [''y_coord'', ''ycoord'', ''y''])) lat
                in Some \<lparr> cameralabel = label,
                          imageurl = rawImageUrl,
                          video_url = optionalUrl rawVideoUrl,
                          web_url = optionalUrl rawWebUrl,
                          x_coord = xCoord,
                          y_coord = yCoord,
                          location = \<lparr> latitude = lat, longitude = lng \<rparr> \<rparr>)"

text \<open>\<^verbatim>\<open>data.features.map(mapFeature).filter((c) => c !== null)\<close>\<close>

definition normalizeFeatures :: "ArcGISFeature list \<Rightarrow> TrafficCamera list" where
  "normalizeFeatures features = map the (filter (\<lambda>c. c \<noteq> None) (map mapFeature features))"

section \<open>HTTP fetch\<close>

text \<open>
  What the network does with one request, seen from the caller.  It stays
  silent for ever, or the connection fails after some milliseconds, or a
  response (status line and headers) arrives after some milliseconds.  The
  body of a response comes separately: it stalls for ever, or it is complete
  at some time, counted from the start of the request like the others, and
  then it is JSON text for a value or it is not (\<open>None\<close>).
\<close>

datatype 'a body = Stalled | Complete nat "'a option"

record 'a Response =
  ok :: bool
  status :: nat
  statusText :: jsstring
  body :: "'a body"

datatype 'a network = Silent | Fails nat | Responds nat "'a Response"

datatype fetch_error =
    HttpError nat jsstring
  | AbortError
  | NetworkError
  | SyntaxError

text \<open>The promise an \<^verbatim>\<open>async\<close> function returns, at the end of time.\<close>

datatype 'a promise = Pending | Rejected fetch_error | Fulfilled 'a

text \<open>\<^verbatim>\<open>await fetch(url)\<close>: \<open>None\<close> while the network stays silent.\<close>

definition fetch_plain :: "'a network \<Rightarrow> (fetch_error + 'a Response) option" where
  "fetch_plain n =
     (case n of
        Silent \<Rightarrow> None
      | Fails t \<Rightarrow> Some (Inl NetworkError)
      | Responds t r \<Rightarrow> Some (Inr r))"

text \<open>
  \<^verbatim>\<open>setTimeout(() => controller.abort(), ms); await fetch(url, { signal })\<close>:
  the timer fires unless the network has settled the request before \<open>ms\<close>
  milliseconds; an aborted fetch rejects with \<^verbatim>\<open>AbortError\<close>.  The second
  component tells whether \<^verbatim>\<open>controller.abort()\<close> ran.
\<close>

definition fetch_signal :: "nat \<Rightarrow> 'a network \<Rightarrow> (fetch_error + 'a Response) \<times> bool" where
  "fetch_signal ms n =
     (case n of
        Silent \<Rightarrow> (Inl AbortError, True)
      | Fails t \<Rightarrow> if t < ms then (Inl NetworkError, False) else (Inl AbortError, True)
      | Responds t r \<Rightarrow> if t < ms then (Inr r, False) else (Inl AbortError, True))"

text \<open>\<^verbatim>\<open>response.json()\<close> with no abort timer running: it waits for the body as long
  as that takes.\<close>

definition json_plain :: "'a Response \<Rightarrow> 'a promise" where
  "json_plain response =
     (case body response of
        Stalled \<Rightarrow> Pending
      | Complete t None \<Rightarrow> Rejected SyntaxError
      | Complete t (Some data) \<Rightarrow> Fulfilled data)"

text \<open>\<^verbatim>\<open>await response.json()\<close> while the abort timer of \<open>ms\<close> milliseconds is still
  running: the timer fires unless the body is complete before, and the read
  is then rejected with \<^verbatim>\<open>AbortError\<close>.\<close>

definition json_signal :: "nat \<Rightarrow> 'a Response \<Rightarrow> 'a promise \<times> bool" where
  "json_signal ms response =
     (case body response of
        Stalled \<Rightarrow> (Rejected AbortError, True)
      | Complete t j \<Rightarrow>
          if t < ms then
            (case j of
               None \<Rightarrow> (Rejected SyntaxError, False)
             | Some data \<Rightarrow> (Fulfilled data, False))
          else (Rejected AbortError, True))"

definition mapPromise :: "('a \<Rightarrow> 'b) \<Rightarrow> 'a promise \<Rightarrow> 'b promise" where
  "mapPromise f p =
     (case p of
        Pending \<Rightarrow> Pending
      | Rejected e \<Rightarrow> Rejected e
      | Fulfilled x \<Rightarrow> Fulfilled (f x))"

text \<open>
  \<^verbatim>\<open>fetchArcGISCameras\<close>: the request is made with a 15 second abort timer, and
  the body is awaited inside the \<^verbatim>\<open>try\<close>, so the timer is cleared only after the
  body has been read.
\<close>

definition fetchArcGISCameras ::
  "jsstring \<Rightarrow> (jsstring \<Rightarrow> ArcGISFeature list network) \<Rightarrow> TrafficCamera list promise \<times> bool"
  where
  "fetchArcGISCameras featureServiceUrl net =
     (let queryUrl = featureServiceUrl @ str ''/query?where=1%3D1&outFields=*&f=geojson''
      in case fetch_signal 15000 (net queryUrl) of
           (Inl e, aborted) \<Rightarrow> (Rejected e, aborted)
         | (Inr response, aborted) \<Rightarrow>
             if \<not> ok response
             then (Rejected (HttpError (status response) (statusText response)), aborted)
             else (case json_signal 15000 response of
                     (data, aborted') \<Rightarrow> (mapPromise normalizeFeatures data, aborted')))"

section \<open>Socrata adapter\<close>

definition API_ENDPOINT :: jsstring where
  "API_ENDPOINT = str ''https://data.seattle.gov/resource/65fc-btcc.json''"

definition FETCH_TIMEOUT_MS :: nat where
  "FETCH_TIMEOUT_MS = 10000"

text \<open>\<^verbatim>\<open>fetchCameras\<close> of src/services/api.ts: no timer, no abort controller.\<close>

definition fetchCameras_api ::
  "(jsstring \<Rightarrow> TrafficCamera list network) \<Rightarrow> TrafficCamera list promise \<times> bool" where
  "fetchCameras_api net =
     (case fetch_plain (net API_ENDPOINT) of
        None \<Rightarrow> (Pending, False)
      | Some (Inl e) \<Rightarrow> (Rejected e, False)
      | Some (Inr response) \<Rightarrow>
          if \<not> ok response
          then (Rejected (HttpError (status response) (statusText response)), False)
          else (json_plain response, False))"

text \<open>
  \<^verbatim>\<open>fetchCameras\<close> of the second copy of the adapter (unnamed/part_000): the
  request carries the signal of a controller that a timer aborts after
  \<^verbatim>\<open>FETCH_TIMEOUT_MS\<close>.  The function returns \<^verbatim>\<open>response.json()\<close> without awaiting
  it, so its \<^verbatim>\<open>finally\<close> clears the timer as soon as the response has arrived,
  and the body is read with no timer running.
\<close>

definition fetchCameras_part_000 ::
  "(jsstring \<Rightarrow> TrafficCamera list network) \<Rightarrow> TrafficCamera list promise \<times> bool" where
  "fetchCameras_part_000 net =
     (case fetch_signal FETCH_TIMEOUT_MS (net API_ENDPOINT) of
        (Inl e, aborted) \<Rightarrow> (Rejected e, aborted)
      | (Inr response, aborted) \<Rightarrow>
          if \<not> ok response
          then (Rejected (HttpError (status response) (statusText response)), aborted)
          else (json_plain response, aborted))"

section \<open>Camera card\<close>

text \<open>\<^verbatim>\<open>const videoUrl = camera.video_url?.url\<close>, used as a condition.\<close>

definition hasVideoUrl :: "TrafficCamera \<Rightarrow> bool" where
  "hasVideoUrl camera =
     (case video_url camera of
        None \<Rightarrow> False
      | Some u \<Rightarrow> truthy u)"

text \<open>
  What can happen to a mounted card: the intersection observer reports, the
  refresh timer fires (with the value of \<^verbatim>\<open>Date.now()\<close>), a button is clicked,
  the video player calls \<^verbatim>\<open>onError\<close> or \<^verbatim>\<open>onLoad\<close>, the image element
  fires \<^verbatim>\<open>load\<close> or \<^verbatim>\<open>error\<close>.
\<close>

datatype event =
    Intersect bool
  | Tick nat
  | ClickPlay
  | ClickStop
  | VideoError
  | VideoLoad
  | ImgLoad
  | ImgError

datatype media = VideoPlayer | SignalLost | Img

text \<open>\<^verbatim>\<open>`${camera.imageurl.url}?t=${timestamp}`\<close>, kept as its two parts.\<close>

record ImageUrl =
  url_base :: jsval
  t_param :: nat

subsection \<open>src/components/CameraCard.tsx\<close>

record CardState =
  isInView :: bool
  timestamp :: nat
  isImgLoading :: bool
  hasImgError :: bool
  isVideoPlaying :: bool

text \<open>The initial values of the \<^verbatim>\<open>useState\<close> hooks; \<open>now\<close> is \<^verbatim>\<open>Date.now()\<close>.\<close>

definition mount :: "nat \<Rightarrow> CardState" where
  "mount now =
     \<lparr> isInView = False, timestamp = now, isImgLoading = True, hasImgError = False,
       isVideoPlaying = False \<rparr>"

definition imageUrl :: "TrafficCamera \<Rightarrow> CardState \<Rightarrow> ImageUrl" where
  "imageUrl camera st = \<lparr> url_base = imageurl camera, t_param = timestamp st \<rparr>"

text \<open>The media slot of the rendered card.\<close>

definition rendered :: "TrafficCamera \<Rightarrow> CardState \<Rightarrow> media" where
  "rendered camera st =
     (if isVideoPlaying st \<and> hasVideoUrl camera \<and> isInView st then VideoPlayer
      else if hasImgError st then SignalLost
      else Img)"

text \<open>The \<^verbatim>\<open>src\<close> of the \<^verbatim>\<open><img>\<close> element, where the card renders one: what the
  browser fetches as the snapshot.\<close>

definition imgSrc :: "TrafficCamera \<Rightarrow> CardState \<Rightarrow> ImageUrl option" where
  "imgSrc camera st = (if rendered camera st = Img then Some (imageUrl camera st) else None)"

text \<open>\<^verbatim>\<open>{videoUrl && !isVideoPlaying && (<button onClick={() => setIsVideoPlaying(true)} ...\<close>\<close>

definition playButton :: "TrafficCamera \<Rightarrow> CardState \<Rightarrow> bool" where
  "playButton camera st = (hasVideoUrl camera \<and> \<not> isVideoPlaying st)"

definition stopButton :: "CardState \<Rightarrow> bool" where
  "stopButton st = isVideoPlaying st"

text \<open>The snapshot effect: \<^verbatim>\<open>if (isVideoPlaying) return; const id = setInterval(..., refreshInterval)\<close>.
  \<open>Some ms\<close> is a running interval timer of period \<open>ms\<close>.\<close>

definition refreshTimer :: "nat \<Rightarrow> CardState \<Rightarrow> nat option" where
  "refreshTimer refreshInterval st = (if isVideoPlaying st then None else Some refreshInterval)"

text \<open>The default of the \<^verbatim>\<open>refreshInterval\<close> prop, in milliseconds.\<close>

definition refreshInterval_default :: nat where
  "refreshInterval_default = 30000"

text \<open>An event reaches the card only through what is rendered or running.\<close>

fun enabled :: "TrafficCamera \<Rightarrow> CardState \<Rightarrow> event \<Rightarrow> bool" where
  "enabled camera st (Intersect b) = True"
| "enabled camera st (Tick now) = (\<not> isVideoPlaying st)"
| "enabled camera st ClickPlay = playButton camera st"
| "enabled camera st ClickStop = stopButton st"
| "enabled camera st VideoError = (rendered camera st = VideoPlayer)"
| "enabled camera st VideoLoad = (rendered camera st = VideoPlayer)"
| "enabled camera st ImgLoad = (rendered camera st = Img)"
| "enabled camera st ImgError = (rendered camera st = Img)"

fun handler :: "CardState \<Rightarrow> event \<Rightarrow> CardState" where
  "handler st (Intersect b) = st\<lparr>isInView := b\<rparr>"
| "handler st (Tick now) = st\<lparr>timestamp := now, isImgLoading := True\<rparr>"
| "handler st ClickPlay = st\<lparr>isVideoPlaying := True\<rparr>"
| "handler st ClickStop = st\<lparr>isVideoPlaying := False\<rparr>"
| "handler st VideoError = st\<lparr>isVideoPlaying := False, isImgLoading := True\<rparr>"
| "handler st VideoLoad = st\<lparr>isImgLoading := False\<rparr>"
| "handler st ImgLoad = st\<lparr>isImgLoading := False, hasImgError := False\<rparr>"
| "handler st ImgError = st\<lparr>isImgLoading := False, hasImgError := True\<rparr>"

text \<open>The auto-pause effect: \<^verbatim>\<open>if (!isInView && isVideoPlaying) setIsVideoPlaying(false)\<close>.\<close>

definition autoPause :: "CardState \<Rightarrow> CardState" where
  "autoPause st =
     (if \<not> isInView st \<and> isVideoPlaying st then st\<lparr>isVideoPlaying := False\<rparr> else st)"

text \<open>One event: its handler, then the effects of the render that follows.\<close>

definition step :: "TrafficCamera \<Rightarrow> CardState \<Rightarrow> event \<Rightarrow> CardState" where
  "step camera st ev = (if enabled camera st ev then autoPause (handler st ev) else st)"

definition run :: "TrafficCamera \<Rightarrow> nat \<Rightarrow> event list \<Rightarrow> CardState" where
  "run camera now evs = foldl (step camera) (mount now) evs"

subsection \<open>The second copy of the card (unnamed/part_002)\<close>

record CardState_part_002 =
  timestamp2 :: nat
  isLoading2 :: bool
  hasError2 :: bool
  isVideoPlaying2 :: bool

text \<open>\<^verbatim>\<open>useState(!!camera.video_url?.url)\<close>\<close>

definition mount_part_002 :: "TrafficCamera \<Rightarrow> nat \<Rightarrow> CardState_part_002" where
  "mount_part_002 camera now =
     \<lparr> timestamp2 = now, isLoading2 = True, hasError2 = False,
       isVideoPlaying2 = hasVideoUrl camera \<rparr>"

definition rendered_part_002 :: "TrafficCamera \<Rightarrow> CardState_part_002 \<Rightarrow> media" where
  "rendered_part_002 camera st =
     (if hasError2 st \<and> \<not> isVideoPlaying2 st then SignalLost
      else if isVideoPlaying2 st \<and> hasVideoUrl camera then VideoPlayer
      else Img)"

definition imageUrl_part_002 :: "TrafficCamera \<Rightarrow> CardState_part_002 \<Rightarrow> ImageUrl" where
  "imageUrl_part_002 camera st = \<lparr> url_base = imageurl camera, t_param = timestamp2 st \<rparr>"

definition imgSrc_part_002 :: "TrafficCamera \<Rightarrow> CardState_part_002 \<Rightarrow> ImageUrl option" where
  "imgSrc_part_002 camera st =
     (if rendered_part_002 camera st = Img then Some (imageUrl_part_002 camera st) else None)"

definition playButton_part_002 :: "TrafficCamera \<Rightarrow> CardState_part_002 \<Rightarrow> bool" where
  "playButton_part_002 camera st = (hasVideoUrl camera \<and> \<not> isVideoPlaying2 st)"

definition refreshTimer_part_002 :: "nat \<Rightarrow> CardState_part_002 \<Rightarrow> nat option" where
  "refreshTimer_part_002 refreshInterval st =
     (if isVideoPlaying2 st then None else Some refreshInterval)"

text \<open>This copy has no intersection observer and no stop button.\<close>

fun enabled_part_002 :: "TrafficCamera \<Rightarrow> CardState_part_002 \<Rightarrow> event \<Rightarrow> bool" where
  "enabled_part_002 camera st (Intersect b) = False"
| "enabled_part_002 camera st (Tick now) = (\<not> isVideoPlaying2 st)"
| "enabled_part_002 camera st ClickPlay = playButton_part_002 camera st"
| "enabled_part_002 camera st ClickStop = False"
| "enabled_part_002 camera st VideoError = (rendered_part_002 camera st = VideoPlayer)"
| "enabled_part_002 camera st VideoLoad = (rendered_part_002 camera st = VideoPlayer)"
| "enabled_part_002 camera st ImgLoad = (rendered_part_002 camera st = Img)"
| "enabled_part_002 camera st ImgError = (rendered_part_002 camera st = Img)"

fun handler_part_002 :: "CardState_part_002 \<Rightarrow> event \<Rightarrow> CardState_part_002" where
  "handler_part_002 st (Tick now) = st\<lparr>timestamp2 := now, isLoading2 := True\<rparr>"
| "handler_part_002 st ClickPlay = st\<lparr>isVideoPlaying2 := True\<rparr>"
| "handler_part_002 st VideoError = st\<lparr>isVideoPlaying2 := False, isLoading2 := True\<rparr>"
| "handler_part_002 st VideoLoad = st\<lparr>isLoading2 := False, hasError2 := False\<rparr>"
| "handler_part_002 st ImgLoad = st\<lparr>isLoading2 := False, hasError2 := False\<rparr>"
| "handler_part_002 st ImgError = st\<lparr>isLoading2 := False, hasError2 := True\<rparr>"
| "handler_part_002 st ev = st"

definition step_part_002 ::
  "TrafficCamera \<Rightarrow> CardState_part_002 \<Rightarrow> event \<Rightarrow> CardState_part_002" where
  "step_part_002 camera st ev =
     (if enabled_part_002 camera st ev then handler_part_002 st ev else st)"

definition run_part_002 :: "TrafficCamera \<Rightarrow> nat \<Rightarrow> event list \<Rightarrow> CardState_part_002" where
  "run_part_002 camera now evs = foldl (step_part_002 camera) (mount_part_002 camera now) evs"

section \<open>Map view (unnamed/part_001)\<close>

text \<open>
  \<^verbatim>\<open>parseFloat\<close> skips leading white space and line terminators and reads the
  longest prefix that is a decimal literal: an optional sign, then \<^verbatim>\<open>Infinity\<close>,
  or digits with an optional fraction, or a dot and digits, each with an
  optional exponent.  Without such a prefix the result is \<^verbatim>\<open>NaN\<close>.  A literal
  denotes the number \<open>m \<times> 10\<^sup>e\<close>; the result is the double nearest to it, which is
  an infinity from \<open>2\<^sup>1\<^sup>0\<^sup>2\<^sup>4 - 2\<^sup>9\<^sup>7\<^sup>0\<close> on (half way between the largest double
  and \<open>2\<^sup>1\<^sup>0\<^sup>2\<^sup>4\<close>).  \<open>Numeric negative m e\<close> is that double where it is finite.
  (An engine may replace the digits after the twentieth significant one by
  zeros before rounding.)
\<close>

datatype jsfloat = NaN | Infinity bool | Numeric bool nat int

definition isNaN :: "jsfloat \<Rightarrow> bool" where
  "isNaN x = (x = NaN)"

text \<open>The code units that \<^verbatim>\<open>TrimString\<close> removes: tab, line feed, vertical tab,
  form feed, carriage return, space, no-break space, U+1680, U+2000 to U+200A,
  U+2028, U+2029, U+202F, U+205F, U+3000 and U+FEFF.\<close>

definition isWhiteSpace :: "nat \<Rightarrow> bool" where
  "isWhiteSpace c =
     (c \<in> set [9, 10, 11, 12, 13, 32, 160, 5760, 8232, 8233, 8239, 8287, 12288, 65279] \<or>
      (8192 \<le> c \<and> c \<le> 8202))"

definition isDigit :: "nat \<Rightarrow> bool" where
  "isDigit c = (48 \<le> c \<and> c \<le> 57)"

definition digitsValue :: "jsstring \<Rightarrow> nat" where
  "digitsValue ds = foldl (\<lambda>a d. 10 * a + (d - 48)) 0 ds"

text \<open>The value of the longest prefix that is an exponent part, 0 when there is
  none.\<close>

definition exponentValue :: "jsstring \<Rightarrow> int" where
  "exponentValue s =
     (case s of
        [] \<Rightarrow> 0
      | e # r \<Rightarrow>
          if e = codeUnit CHR ''e'' \<or> e = codeUnit CHR ''E'' then
            (let sign = (case r of
                           [] \<Rightarrow> []
                         | c # r' \<Rightarrow>
                             if c = codeUnit CHR ''+'' \<or> c = codeUnit CHR ''-'' then [c]
                             else []);
                 digits = takeWhile isDigit (drop (length sign) r)
             in if digits = [] then 0
                else if sign = str ''-'' then - int (digitsValue digits)
                else int (digitsValue digits))
          else 0)"

text \<open>The longest prefix that is an unsigned decimal literal other than
  \<^verbatim>\<open>Infinity\<close>, as the pair \<open>(m, e)\<close>.\<close>

definition unsignedLiteral :: "jsstring \<Rightarrow> (nat \<times> int) option" where
  "unsignedLiteral s =
     (let intPart = takeWhile isDigit s;
          r = dropWhile isDigit s
      in case r of
           [] \<Rightarrow> if intPart = [] then None else Some (digitsValue intPart, 0)
         | c # r1 \<Rightarrow>
             let fraction = takeWhile isDigit r1;
                 r2 = dropWhile isDigit r1
             in if c = codeUnit CHR ''.'' \<and> (intPart \<noteq> [] \<or> fraction \<noteq> [])
                then Some (digitsValue (intPart @ fraction),
                           exponentValue r2 - int (length fraction))
                else if intPart \<noteq> [] then Some (digitsValue intPart, exponentValue r)
                else None)"

text \<open>Whether \<open>m \<times> 10\<^sup>e\<close> rounds to an infinity.\<close>

definition overflows :: "nat \<Rightarrow> int \<Rightarrow> bool" where
  "overflows m e =
     (if 0 \<le> e then 2 ^ 1024 - 2 ^ 970 \<le> m * 10 ^ nat e
      else (2 ^ 1024 - 2 ^ 970) * 10 ^ nat (- e) \<le> m)"

definition parseFloat :: "jsstring \<Rightarrow> jsfloat" where
  "parseFloat string =
     (let trimmed = dropWhile isWhiteSpace string;
          negative = startsWith trimmed (str ''-'');
          unsigned = (if startsWith trimmed (str ''-'') \<or> startsWith trimmed (str ''+'')
                      then tl trimmed else trimmed)
      in if startsWith unsigned (str ''Infinity'') then Infinity negative
         else (case unsignedLiteral unsigned of
                 None \<Rightarrow> NaN
               | Some (m, e) \<Rightarrow> if overflows m e then Infinity negative
                                else Numeric negative m e))"

record Marker =
  lngLat :: "jsfloat \<times> jsfloat"
  marker_camera :: TrafficCamera

text \<open>The filter of the \<^verbatim>\<open>load\<close> handler.\<close>

definition validCameras :: "TrafficCamera list \<Rightarrow> TrafficCamera list" where
  "validCameras cameras =
     filter (\<lambda>c. latitude (location c) \<noteq> [] \<and> longitude (location c) \<noteq> [] \<and>
                 \<not> isNaN (parseFloat (latitude (location c))) \<and>
                 \<not> isNaN (parseFloat (longitude (location c)))) cameras"

text \<open>\<^verbatim>\<open>validCameras.forEach\<close>: one marker for each, at \<^verbatim>\<open>[lng, lat]\<close>.\<close>

definition placeMarkers :: "TrafficCamera list \<Rightarrow> Marker list" where
  "placeMarkers cameras =
     map (\<lambda>camera.
            let lat = parseFloat (latitude (location camera));
                lng = parseFloat (longitude (location camera))
            in \<lparr> lngLat = (lng, lat), marker_camera = camera \<rparr>)
         (validCameras cameras)"

section \<open>Properties of the ArcGIS adapter\<close>


lemma mapFeature_Some:
  assumes "mapFeature f = Some r"
  shows "resolveLat f \<noteq> []" "resolveLng f \<noteq> []"
    "truthy (rawUrl (properties f) imageCandidates (str ''imageurl''))"
    "imageurl r = rawUrl (properties f) imageCandidates (str ''imageurl'')"
    "video_url r = optionalUrl (rawUrl (properties f) videoCandidates (str ''video_url''))"
    "web_url r = optionalUrl (rawUrl (properties f) webCandidates (str ''web_url''))"
    "cameralabel r = orElse (findString (properties f) labelCandidates) (defaultLabel (feature_id f))"
    "location r = \<lparr> latitude = resolveLat f, longitude = resolveLng f \<rparr>"
  using assms by (auto simp: mapFeature_def Let_def split: if_splits)

lemma mapFeature_None_iff:
  "mapFeature f = None \<longleftrightarrow>
     resolveLat f = [] \<or> resolveLng f = [] \<or>
     \<not> truthy (rawUrl (properties f) imageCandidates (str ''imageurl''))"
  by (auto simp: mapFeature_def Let_def)

text \<open>Unfolding these evaluates the adapter on a concrete feature.\<close>

lemmas arcgis_eval =
  mapFeature_def resolveLng_def resolveLat_def coordinate_def findString_step_def
  findUrl_step_def findKey_def objectKeys_def toLowerCase_def toLowerCase_unit_def
  str_def codeUnit_def getProp_def startsWith_def rawUrl_def nestedUrl_def
  imageCandidates_def videoCandidates_def webCandidates_def labelCandidates_def
  orElse_def optionalUrl_def defaultLabel_def normalizeFeatures_def Let_def

text \<open>
  C1.  The claim fails on the code for a feature whose \<^verbatim>\<open>imageurl\<close> property is an
  object with the empty array as its \<^verbatim>\<open>url\<close>: the flat scan finds nothing and
  the \<^verbatim>\<open>url\<close> field is empty, yet the feature is not dropped, because an array
  is truthy; the record that \<^verbatim>\<open>mapFeature\<close> emits, and that the adapter returns,
  has the empty array where the snapshot url, a non-empty string, should be.
\<close>

theorem C1_empty_array_url_emitted:
  "findUrl [(str ''imageurl'', JObject [(str ''url'', JArray [])])] imageCandidates = [] \<and>
   mapFeature
     \<lparr> feature_id = None, geometry = Some [Num (str ''-122.33''), Num (str ''47.6'')],
       properties = [(str ''imageurl'', JObject [(str ''url'', JArray [])])] \<rparr>
   = Some \<lparr> cameralabel = str ''Camera '', imageurl = JArray [], video_url = None,
            web_url = None, x_coord = str ''-122.33'', y_coord = str ''47.6'',
            location = \<lparr> latitude = str ''47.6'', longitude = str ''-122.33'' \<rparr> \<rparr> \<and>
   normalizeFeatures
     [\<lparr> feature_id = None, geometry = Some [Num (str ''-122.33''), Num (str ''47.6'')],
        properties = [(str ''imageurl'', JObject [(str ''url'', JArray [])])] \<rparr>]
   = [\<lparr> cameralabel = str ''Camera '', imageurl = JArray [], video_url = None,
        web_url = None, x_coord = str ''-122.33'', y_coord = str ''47.6'',
        location = \<lparr> latitude = str ''47.6'', longitude = str ''-122.33'' \<rparr> \<rparr>] \<and>
   fetchArcGISCameras (str ''https://example.org/FeatureServer/0'')
     (\<lambda>url. Responds 120
        \<lparr> ok = True, status = 200, statusText = str ''OK'',
          body = Complete 150 (Some
            [\<lparr> feature_id = None,
               geometry = Some [Num (str ''-122.33''), Num (str ''47.6'')],
               properties = [(str ''imageurl'', JObject [(str ''url'', JArray [])])] \<rparr>]) \<rparr>)
   = (Fulfilled
        [\<lparr> cameralabel = str ''Camera '', imageurl = JArray [], video_url = None,
           web_url = None, x_coord = str ''-122.33'', y_coord = str ''47.6'',
           location = \<lparr> latitude = str ''47.6'', longitude = str ''-122.33'' \<rparr> \<rparr>],
      False)"
  by (simp add: arcgis_eval fetchArcGISCameras_def fetch_signal_def json_signal_def
        mapPromise_def)






lemma rawUrl_fallback:
  "findUrl ps candidates = [] \<Longrightarrow> rawUrl ps candidates name = nestedUrl ps name"
  by (simp add: rawUrl_def)

lemma nestedUrl_string:
  "getProp ps name = Some (JObject kvs) \<Longrightarrow> getProp kvs (str ''url'') = Some (JString s) \<Longrightarrow>
     nestedUrl ps name = JString s"
  by (simp add: nestedUrl_def)

lemma nestedUrl_missing: "getProp ps name = None \<Longrightarrow> nestedUrl ps name = JString []"
  by (simp add: nestedUrl_def)

text \<open>
  C10.  When the flat scan returns nothing, the url is what the nested fallback
  reads.  The fallback depends on the properties only through the one property
  whose key is exactly \<^verbatim>\<open>imageurl\<close> (\<^verbatim>\<open>video_url\<close>, \<^verbatim>\<open>web_url\<close>): a non-empty
  string in the \<^verbatim>\<open>url\<close> field of that object is taken as it is, with or
  without the prefix \<^verbatim>\<open>http\<close>, and without a property of exactly that key the
  fallback yields the empty string, whatever a key in another letter case
  holds; for the snapshot the feature is then dropped.
\<close>

theorem C10_nested_fallback_exact_key:
  "(findUrl ps candidates = [] \<longrightarrow> rawUrl ps candidates name = nestedUrl ps name) \<and>
   (getProp ps name = getProp ps' name \<longrightarrow> nestedUrl ps name = nestedUrl ps' name) \<and>
   (getProp ps name = Some (JObject kvs) \<and> getProp kvs (str ''url'') = Some (JString s) \<and>
    s \<noteq> []
      \<longrightarrow> nestedUrl ps name = JString s) \<and>
   (getProp ps name = None \<longrightarrow> nestedUrl ps name = JString []) \<and>
   (mapFeature f = Some r \<and> findUrl (properties f) imageCandidates = []
      \<longrightarrow> imageurl r = nestedUrl (properties f) (str ''imageurl'')) \<and>
   (mapFeature f = Some r \<and> findUrl (properties f) videoCandidates = []
      \<longrightarrow> video_url r = optionalUrl (nestedUrl (properties f) (str ''video_url''))) \<and>
   (mapFeature f = Some r \<and> findUrl (properties f) webCandidates = []
      \<longrightarrow> web_url r = optionalUrl (nestedUrl (properties f) (str ''web_url''))) \<and>
   (findUrl (properties f) imageCandidates = [] \<and>
    getProp (properties f) (str ''imageurl'') = None
      \<longrightarrow> mapFeature f = None)"
proof -
  have a: "nestedUrl ps name = nestedUrl ps' name" if "getProp ps name = getProp ps' name"
    using that by (simp add: nestedUrl_def)
  have i: "imageurl r = nestedUrl (properties f) (str ''imageurl'')"
    if "mapFeature f = Some r \<and> findUrl (properties f) imageCandidates = []"
    using that mapFeature_Some(4) [of f r] by (simp add: rawUrl_fallback)
  have v: "video_url r = optionalUrl (nestedUrl (properties f) (str ''video_url''))"
    if "mapFeature f = Some r \<and> findUrl (properties f) videoCandidates = []"
    using that mapFeature_Some(5) [of f r] by (simp add: rawUrl_fallback)
  have w: "web_url r = optionalUrl (nestedUrl (properties f) (str ''web_url''))"
    if "mapFeature f = Some r \<and> findUrl (properties f) webCandidates = []"
    using that mapFeature_Some(6) [of f r] by (simp add: rawUrl_fallback)
  have d: "mapFeature f = None"
    if "findUrl (properties f) imageCandidates = [] \<and>
        getProp (properties f) (str ''imageurl'') = None"
    using that by (simp add: mapFeature_None_iff rawUrl_fallback nestedUrl_missing)
  show ?thesis
    using a i v w d rawUrl_fallback nestedUrl_string nestedUrl_missing by blast
qed

theorem C10_witness:
  "mapFeature
     \<lparr> feature_id = None, geometry = Some [Num (str ''-122.33''), Num (str ''47.6'')],
       properties =
         [(str ''imageurl'', JObject [(str ''url'', JString (str ''x/img.jpg''))]),
          (str ''Video_Url'', JObject [(str ''url'', JString (str ''http://x/a.m3u8''))]),
          (str ''web_url'', JObject [(str ''url'', JString (str ''sdot/cam7''))])] \<rparr>
   = Some \<lparr> cameralabel = str ''Camera '', imageurl = JString (str ''x/img.jpg''),
            video_url = None, web_url = Some (JString (str ''sdot/cam7'')),
            x_coord = str ''-122.33'', y_coord = str ''47.6'',
            location = \<lparr> latitude = str ''47.6'', longitude = str ''-122.33'' \<rparr> \<rparr> \<and>
   mapFeature
     \<lparr> feature_id = None, geometry = Some [Num (str ''-122.33''), Num (str ''47.6'')],
       properties =
         [(str ''ImageURL'', JObject [(str ''url'', JString (str ''http://x/img.jpg''))])] \<rparr>
   = None"
proof -
  let ?ps = "[(str ''imageurl'', JObject [(str ''url'', JString (str ''x/img.jpg''))]),
              (str ''Video_Url'', JObject [(str ''url'', JString (str ''http://x/a.m3u8''))]),
              (str ''web_url'', JObject [(str ''url'', JString (str ''sdot/cam7''))])]"
  let ?f = "\<lparr> feature_id = None, geometry = Some [Num (str ''-122.33''), Num (str ''47.6'')],
             properties = ?ps \<rparr>"
  let ?r = "\<lparr> cameralabel = str ''Camera '', imageurl = JString (str ''x/img.jpg''),
            video_url = None, web_url = Some (JString (str ''sdot/cam7'')),
            x_coord = str ''-122.33'', y_coord = str ''47.6'',
            location = \<lparr> latitude = str ''47.6'', longitude = str ''-122.33'' \<rparr> \<rparr>"
  let ?g = "\<lparr> feature_id = None, geometry = Some [Num (str ''-122.33''), Num (str ''47.6'')],
       properties =
         [(str ''ImageURL'', JObject [(str ''url'', JString (str ''http://x/img.jpg''))])] \<rparr>"
  have m: "mapFeature ?f = Some ?r" by (simp add: arcgis_eval)
  have fi: "findUrl (properties ?f) imageCandidates = []" by (simp add: arcgis_eval)
  have fv: "findUrl (properties ?f) videoCandidates = []" by (simp add: arcgis_eval)
  have fw: "findUrl (properties ?f) webCandidates = []" by (simp add: arcgis_eval)
  have n: "getProp ?ps (str ''imageurl'')
             = Some (JObject [(str ''url'', JString (str ''x/img.jpg''))]) \<and>
           getProp [(str ''url'', JString (str ''x/img.jpg''))] (str ''url'')
             = Some (JString (str ''x/img.jpg'')) \<and>
           str ''x/img.jpg'' \<noteq> []"
    by (simp add: getProp_def str_def)
  have gi: "findUrl (properties ?g) imageCandidates = [] \<and>
            getProp (properties ?g) (str ''imageurl'') = None"
    by (simp add: arcgis_eval)
  note T = C10_nested_fallback_exact_key
  have "nestedUrl ?ps (str ''imageurl'') = JString (str ''x/img.jpg'')"
    using T [of ?ps _ "str ''imageurl''" _ "[(str ''url'', JString (str ''x/img.jpg''))]"
               "str ''x/img.jpg''"] n
    by blast
  moreover have "imageurl ?r = nestedUrl (properties ?f) (str ''imageurl'')"
    using T [of _ _ _ _ _ _ ?f ?r] m fi by blast
  moreover have "video_url ?r = optionalUrl (nestedUrl (properties ?f) (str ''video_url''))"
    using T [of _ _ _ _ _ _ ?f ?r] m fv by blast
  moreover have "web_url ?r = optionalUrl (nestedUrl (properties ?f) (str ''web_url''))"
    using T [of _ _ _ _ _ _ ?f ?r] m fw by blast
  moreover have "mapFeature ?g = None"
    using T [of _ _ _ _ _ _ ?g] gi by blast
  ultimately show ?thesis using m by blast
qed

text \<open>
  C3.  The claim fails on the code when two keys differ only in letter case.
  Here the properties hold \<^verbatim>\<open>cameralabel\<close> with the value \<^verbatim>\<open>A\<close> and \<^verbatim>\<open>name\<close> with the
  value \<^verbatim>\<open>B\<close>, two different non-empty strings.  The key \<^verbatim>\<open>CameraLabel\<close> comes
  first and holds \<^verbatim>\<open>null\<close>; \<^verbatim>\<open>find\<close> returns that key alone, so the candidate
  \<^verbatim>\<open>cameralabel\<close> yields nothing, the scan goes on to the later candidates, and
  the emitted label is \<^verbatim>\<open>B\<close>, not the \<^verbatim>\<open>cameralabel\<close> value.
\<close>

theorem C3_case_variant_key_hides_label:
  "getProp [(str ''CameraLabel'', JNull), (str ''cameralabel'', JString (str ''A'')),
            (str ''name'', JString (str ''B'')),
            (str ''imageurl'', JString (str ''http://x/img.jpg''))] (str ''cameralabel'')
   = Some (JString (str ''A'')) \<and>
   getProp [(str ''CameraLabel'', JNull), (str ''cameralabel'', JString (str ''A'')),
            (str ''name'', JString (str ''B'')),
            (str ''imageurl'', JString (str ''http://x/img.jpg''))] (str ''name'')
   = Some (JString (str ''B'')) \<and>
   findString [(str ''CameraLabel'', JNull), (str ''cameralabel'', JString (str ''A'')),
               (str ''name'', JString (str ''B'')),
               (str ''imageurl'', JString (str ''http://x/img.jpg''))] labelCandidates
   = str ''B'' \<and>
   mapFeature
     \<lparr> feature_id = None, geometry = Some [Num (str ''-122.33''), Num (str ''47.6'')],
       properties = [(str ''CameraLabel'', JNull), (str ''cameralabel'', JString (str ''A'')),
                     (str ''name'', JString (str ''B'')),
                     (str ''imageurl'', JString (str ''http://x/img.jpg''))] \<rparr>
   = Some \<lparr> cameralabel = str ''B'', imageurl = JString (str ''http://x/img.jpg''),
            video_url = None, web_url = None,
            x_coord = str ''-122.33'', y_coord = str ''47.6'',
            location = \<lparr> latitude = str ''47.6'', longitude = str ''-122.33'' \<rparr> \<rparr>"
  by (simp add: arcgis_eval)

section \<open>Properties of the camera card\<close>

lemma step_not_playing:
  "\<not> hasVideoUrl camera \<Longrightarrow> \<not> isVideoPlaying st \<Longrightarrow> \<not> isVideoPlaying (step camera st ev)"
  by (cases ev) (auto simp: step_def autoPause_def playButton_def stopButton_def)

lemma foldl_step_not_playing:
  "\<not> hasVideoUrl camera \<Longrightarrow> \<not> isVideoPlaying st \<Longrightarrow>
     \<not> isVideoPlaying (foldl (step camera) st evs)"
  by (induction evs arbitrary: st) (auto simp: step_not_playing)

lemma run_not_playing:
  "\<not> hasVideoUrl camera \<Longrightarrow> \<not> isVideoPlaying (run camera now evs)"
  unfolding run_def by (rule foldl_step_not_playing) (simp_all add: mount_def)

lemma step_part_002_not_playing:
  "\<not> hasVideoUrl camera \<Longrightarrow> \<not> isVideoPlaying2 st \<Longrightarrow>
     \<not> isVideoPlaying2 (step_part_002 camera st ev)"
  by (cases ev) (auto simp: step_part_002_def playButton_part_002_def)

lemma foldl_step_part_002_not_playing:
  "\<not> hasVideoUrl camera \<Longrightarrow> \<not> isVideoPlaying2 st \<Longrightarrow>
     \<not> isVideoPlaying2 (foldl (step_part_002 camera) st evs)"
  by (induction evs arbitrary: st) (auto simp: step_part_002_not_playing)

lemma run_part_002_not_playing:
  "\<not> hasVideoUrl camera \<Longrightarrow> \<not> isVideoPlaying2 (run_part_002 camera now evs)"
  unfolding run_part_002_def
  by (rule foldl_step_part_002_not_playing) (simp_all add: mount_part_002_def)

text \<open>Unfolding these evaluates a card on a concrete list of events.\<close>

lemmas card_eval =
  run_def step_def mount_def autoPause_def playButton_def stopButton_def rendered_def
  hasVideoUrl_def refreshTimer_def imageUrl_def imgSrc_def refreshInterval_default_def
  run_part_002_def step_part_002_def mount_part_002_def playButton_part_002_def
  rendered_part_002_def refreshTimer_part_002_def imageUrl_part_002_def imgSrc_part_002_def
  str_def codeUnit_def

text \<open>
  C8.  For a camera without a stream url (\<^verbatim>\<open>video_url\<close> absent, or its \<^verbatim>\<open>url\<close>
  falsy), after any sequence of events \<^verbatim>\<open>isVideoPlaying\<close> is false, the video
  player is not what the card renders and no play button is offered.  This
  holds of both copies of the card.
\<close>

theorem C8_no_stream_url_never_plays:
  "\<not> hasVideoUrl camera \<longrightarrow>
     \<not> isVideoPlaying (run camera now evs) \<and>
     rendered camera (run camera now evs) \<noteq> VideoPlayer \<and>
     \<not> playButton camera (run camera now evs) \<and>
     \<not> isVideoPlaying2 (run_part_002 camera now evs) \<and>
     rendered_part_002 camera (run_part_002 camera now evs) \<noteq> VideoPlayer \<and>
     \<not> playButton_part_002 camera (run_part_002 camera now evs)"
  using run_not_playing [of camera now evs] run_part_002_not_playing [of camera now evs]
  by (simp add: rendered_def playButton_def rendered_part_002_def playButton_part_002_def)

theorem C8_witness:
  "\<not> isVideoPlaying
       (run \<lparr> cameralabel = str ''5th Ave'', imageurl = JString (str ''http://x/img.jpg''),
               video_url = None, web_url = None, x_coord = str ''1'', y_coord = str ''2'',
               location = \<lparr> latitude = str ''47.6'', longitude = str ''-122.33'' \<rparr> \<rparr>
            0 [Intersect True, ClickPlay, VideoLoad, Tick 30000]) \<and>
   \<not> isVideoPlaying2
       (run_part_002
            \<lparr> cameralabel = str ''5th Ave'', imageurl = JString (str ''http://x/img.jpg''),
               video_url = None, web_url = None, x_coord = str ''1'', y_coord = str ''2'',
               location = \<lparr> latitude = str ''47.6'', longitude = str ''-122.33'' \<rparr> \<rparr>
            0 [Intersect True, ClickPlay, VideoLoad, Tick 30000])"
proof -
  let ?c = "\<lparr> cameralabel = str ''5th Ave'', imageurl = JString (str ''http://x/img.jpg''),
               video_url = None, web_url = None, x_coord = str ''1'', y_coord = str ''2'',
               location = \<lparr> latitude = str ''47.6'', longitude = str ''-122.33'' \<rparr> \<rparr>"
  have "\<not> hasVideoUrl ?c" by (simp add: hasVideoUrl_def)
  then show ?thesis
    using C8_no_stream_url_never_plays [of ?c 0 "[Intersect True, ClickPlay, VideoLoad, Tick 30000]"]
    by blast
qed

lemma step_starts_playing:
  "\<not> isVideoPlaying st \<Longrightarrow> isVideoPlaying (step camera st ev) \<Longrightarrow>
     ev = ClickPlay \<and> hasVideoUrl camera"
  by (cases ev) (auto simp: step_def autoPause_def playButton_def stopButton_def split: if_splits)

lemma step_part_002_starts_playing:
  "\<not> isVideoPlaying2 st \<Longrightarrow> isVideoPlaying2 (step_part_002 camera st ev) \<Longrightarrow>
     ev = ClickPlay \<and> hasVideoUrl camera"
  by (cases ev) (auto simp: step_part_002_def playButton_part_002_def split: if_splits)

text \<open>
  C7 (as amended).  The card of src/components/CameraCard.tsx is mounted with
  \<^verbatim>\<open>isVideoPlaying\<close> false and shows no video player, whatever the camera; the
  second copy of the card (unnamed/part_002) is mounted with \<^verbatim>\<open>isVideoPlaying\<close>
  equal to the presence of a stream url, so that it shows the player at once
  when there is one.  In both, the only event that takes a card from not
  playing to playing is a click on the play button, and only for a camera with
  a stream url.
\<close>

theorem C7_initial_state_and_activation:
  "\<not> isVideoPlaying (mount now) \<and>
   rendered camera (mount now) \<noteq> VideoPlayer \<and>
   (\<not> isVideoPlaying st \<and> isVideoPlaying (step camera st ev)
      \<longrightarrow> ev = ClickPlay \<and> hasVideoUrl camera) \<and>
   isVideoPlaying2 (mount_part_002 camera now) = hasVideoUrl camera \<and>
   (rendered_part_002 camera (mount_part_002 camera now) = VideoPlayer) = hasVideoUrl camera \<and>
   (\<not> isVideoPlaying2 st2 \<and> isVideoPlaying2 (step_part_002 camera st2 ev)
      \<longrightarrow> ev = ClickPlay \<and> hasVideoUrl camera)"
  using step_starts_playing [of st camera ev] step_part_002_starts_playing [of st2 camera ev]
  by (auto simp: mount_def rendered_def mount_part_002_def rendered_part_002_def)

theorem C7_witness:
  "\<not> isVideoPlaying (run
       \<lparr> cameralabel = str ''5th Ave'', imageurl = JString (str ''http://x/img.jpg''),
         video_url = Some (JString (str ''http://x/live.m3u8'')), web_url = None,
         x_coord = str ''1'', y_coord = str ''2'',
         location = \<lparr> latitude = str ''47.6'', longitude = str ''-122.33'' \<rparr> \<rparr>
       0 [Intersect True]) \<and>
   isVideoPlaying (run
       \<lparr> cameralabel = str ''5th Ave'', imageurl = JString (str ''http://x/img.jpg''),
         video_url = Some (JString (str ''http://x/live.m3u8'')), web_url = None,
         x_coord = str ''1'', y_coord = str ''2'',
         location = \<lparr> latitude = str ''47.6'', longitude = str ''-122.33'' \<rparr> \<rparr>
       0 [Intersect True, ClickPlay]) \<and>
   hasVideoUrl
       \<lparr> cameralabel = str ''5th Ave'', imageurl = JString (str ''http://x/img.jpg''),
         video_url = Some (JString (str ''http://x/live.m3u8'')), web_url = None,
         x_coord = str ''1'', y_coord = str ''2'',
         location = \<lparr> latitude = str ''47.6'', longitude = str ''-122.33'' \<rparr> \<rparr>"
proof -
  let ?c = "\<lparr> cameralabel = str ''5th Ave'', imageurl = JString (str ''http://x/img.jpg''),
         video_url = Some (JString (str ''http://x/live.m3u8'')), web_url = None,
         x_coord = str ''1'', y_coord = str ''2'',
         location = \<lparr> latitude = str ''47.6'', longitude = str ''-122.33'' \<rparr> \<rparr>"
  have a: "\<not> isVideoPlaying (run ?c 0 [Intersect True])"
    by (simp add: card_eval)
  have b: "isVideoPlaying (step ?c (run ?c 0 [Intersect True]) ClickPlay)"
    by (simp add: card_eval)
  have c: "run ?c 0 [Intersect True, ClickPlay] = step ?c (run ?c 0 [Intersect True]) ClickPlay"
    by (simp add: run_def)
  have "hasVideoUrl ?c"
    using C7_initial_state_and_activation [of 0 ?c "run ?c 0 [Intersect True]" ClickPlay] a b
    by blast
  with a b c show ?thesis by simp
qed

text \<open>
  The claim as first stated fails on the second copy of the card: with a stream
  url it is playing, and renders the video player, at mount.
\<close>

theorem C7_counterexample:
  "isVideoPlaying2 (mount_part_002
       \<lparr> cameralabel = str ''5th Ave'', imageurl = JString (str ''http://x/img.jpg''),
         video_url = Some (JString (str ''http://x/live.m3u8'')), web_url = None,
         x_coord = str ''1'', y_coord = str ''2'',
         location = \<lparr> latitude = str ''47.6'', longitude = str ''-122.33'' \<rparr> \<rparr> 0) \<and>
   rendered_part_002
       \<lparr> cameralabel = str ''5th Ave'', imageurl = JString (str ''http://x/img.jpg''),
         video_url = Some (JString (str ''http://x/live.m3u8'')), web_url = None,
         x_coord = str ''1'', y_coord = str ''2'',
         location = \<lparr> latitude = str ''47.6'', longitude = str ''-122.33'' \<rparr> \<rparr>
       (mount_part_002
         \<lparr> cameralabel = str ''5th Ave'', imageurl = JString (str ''http://x/img.jpg''),
           video_url = Some (JString (str ''http://x/live.m3u8'')), web_url = None,
           x_coord = str ''1'', y_coord = str ''2'',
           location = \<lparr> latitude = str ''47.6'', longitude = str ''-122.33'' \<rparr> \<rparr> 0)
     = VideoPlayer"
  by (simp add: card_eval)








lemma image_error_persists: "hasImgError st \<Longrightarrow> hasImgError (step camera st ev)"
  by (cases ev) (auto simp: step_def autoPause_def rendered_def)

section \<open>Properties of the map view\<close>

text \<open>Unfolding these evaluates the map view on concrete records.\<close>

lemmas map_eval =
  placeMarkers_def validCameras_def parseFloat_def isNaN_def startsWith_def isWhiteSpace_def
  unsignedLiteral_def exponentValue_def isDigit_def digitsValue_def overflows_def
  str_def codeUnit_def Let_def

text \<open>
  C9.  The claim fails on the code for a record whose latitude is the text
  \<^verbatim>\<open>Infinity\<close>: \<^verbatim>\<open>parseFloat\<close> returns an infinity, which is not a finite number
  and not \<^verbatim>\<open>NaN\<close> either, so the filter keeps the record and a marker is made
  for it, at an infinite latitude.
\<close>

theorem C9_infinite_latitude_gets_marker:
  "parseFloat (str ''Infinity'') = Infinity False \<and>
   validCameras
     [\<lparr> cameralabel = str ''A'', imageurl = JString (str ''http://x/a.jpg''), video_url = None,
        web_url = None, x_coord = str ''1'', y_coord = str ''2'',
        location = \<lparr> latitude = str ''Infinity'', longitude = str ''-122.33'' \<rparr> \<rparr>]
   = [\<lparr> cameralabel = str ''A'', imageurl = JString (str ''http://x/a.jpg''), video_url = None,
        web_url = None, x_coord = str ''1'', y_coord = str ''2'',
        location = \<lparr> latitude = str ''Infinity'', longitude = str ''-122.33'' \<rparr> \<rparr>] \<and>
   map lngLat (placeMarkers
     [\<lparr> cameralabel = str ''A'', imageurl = JString (str ''http://x/a.jpg''), video_url = None,
        web_url = None, x_coord = str ''1'', y_coord = str ''2'',
        location = \<lparr> latitude = str ''Infinity'', longitude = str ''-122.33'' \<rparr> \<rparr>])
   = [(Numeric True 12233 (- 2), Infinity False)]"
  by (simp add: map_eval)

section \<open>Properties of the Socrata adapter\<close>

lemma fetchCameras_part_000_cases:
  "fetchCameras_part_000 net =
     (case net API_ENDPOINT of
        Silent \<Rightarrow> (Rejected AbortError, True)
      | Fails t \<Rightarrow>
          if t < FETCH_TIMEOUT_MS then (Rejected NetworkError, False)
          else (Rejected AbortError, True)
      | Responds t r \<Rightarrow>
          if t < FETCH_TIMEOUT_MS then
            (if \<not> ok r then (Rejected (HttpError (status r) (statusText r)), False)
             else (json_plain r, False))
          else (Rejected AbortError, True))"
  by (simp add: fetchCameras_part_000_def fetch_signal_def split: network.splits)

lemma fetchCameras_api_cases:
  "fetchCameras_api net =
     (case net API_ENDPOINT of
        Silent \<Rightarrow> (Pending, False)
      | Fails t \<Rightarrow> (Rejected NetworkError, False)
      | Responds t r \<Rightarrow>
          if \<not> ok r then (Rejected (HttpError (status r) (statusText r)), False)
          else (json_plain r, False))"
  by (simp add: fetchCameras_api_def fetch_plain_def split: network.splits)

text \<open>A body that stalls after the response has arrived: the adapter with the
  10 second timer waits for ever and aborts nothing, the ArcGIS adapter is
  aborted by its timer.\<close>

lemma fetchCameras_part_000_stalled_body:
  "net API_ENDPOINT = Responds t r \<Longrightarrow> t < FETCH_TIMEOUT_MS \<Longrightarrow> ok r \<Longrightarrow> body r = Stalled \<Longrightarrow>
     fetchCameras_part_000 net = (Pending, False)"
  by (simp add: fetchCameras_part_000_cases json_plain_def)

lemma fetchArcGISCameras_stalled_body:
  "net (url @ str ''/query?where=1%3D1&outFields=*&f=geojson'') = Responds t r \<Longrightarrow>
     t < 15000 \<Longrightarrow> ok r \<Longrightarrow> body r = Stalled \<Longrightarrow>
     fetchArcGISCameras url net = (Rejected AbortError, True)"
  by (simp add: fetchArcGISCameras_def fetch_signal_def json_signal_def mapPromise_def)

text \<open>Unfolding these evaluates the adapter on a concrete network.\<close>

lemmas socrata_eval =
  fetchCameras_part_000_def fetchCameras_api_def fetch_signal_def fetch_plain_def
  json_plain_def FETCH_TIMEOUT_MS_def

text \<open>
  C4 (as amended).  The \<^verbatim>\<open>fetchCameras\<close> with the timer (unnamed/part_000) is
  rejected with \<^verbatim>\<open>AbortError\<close>, the controller having aborted the request, when
  no response has arrived before 10000 ms.  When the connection fails before
  that, or the response and its body arrive before that, it is rejected if
  the connection fails, if the response is not \<^verbatim>\<open>ok\<close> or if the body is not
  JSON, and it is fulfilled with the parsed body otherwise, nothing being
  aborted.  (Nothing is said here of a body that is not complete by then.)
  The \<^verbatim>\<open>fetchCameras\<close> of
  src/services/api.ts never aborts: it stays pending while the network is
  silent, and is rejected or fulfilled in the same way whenever the network
  settles.
\<close>

theorem C4_fetchCameras_failures:
  "FETCH_TIMEOUT_MS = 10000 \<and>
   (net API_ENDPOINT = Silent \<or>
    (\<exists>t. FETCH_TIMEOUT_MS \<le> t \<and>
         (net API_ENDPOINT = Fails t \<or> (\<exists>r. net API_ENDPOINT = Responds t r)))
      \<longrightarrow> fetchCameras_part_000 net = (Rejected AbortError, True)) \<and>
   (t < FETCH_TIMEOUT_MS \<and> net API_ENDPOINT = Fails t
      \<longrightarrow> fetchCameras_part_000 net = (Rejected NetworkError, False)) \<and>
   (t < FETCH_TIMEOUT_MS \<and> net API_ENDPOINT = Responds t r \<and> \<not> ok r
      \<longrightarrow> fetchCameras_part_000 net = (Rejected (HttpError (status r) (statusText r)), False)) \<and>
   (t < FETCH_TIMEOUT_MS \<and> net API_ENDPOINT = Responds t r \<and> ok r \<and>
    body r = Complete t' None \<and> t' < FETCH_TIMEOUT_MS
      \<longrightarrow> fetchCameras_part_000 net = (Rejected SyntaxError, False)) \<and>
   (t < FETCH_TIMEOUT_MS \<and> net API_ENDPOINT = Responds t r \<and> ok r \<and>
    body r = Complete t' (Some cameras) \<and> t' < FETCH_TIMEOUT_MS
      \<longrightarrow> fetchCameras_part_000 net = (Fulfilled cameras, False)) \<and>
   snd (fetchCameras_api net) = False \<and>
   (net API_ENDPOINT = Silent \<longrightarrow> fetchCameras_api net = (Pending, False)) \<and>
   (net API_ENDPOINT = Fails t \<longrightarrow> fetchCameras_api net = (Rejected NetworkError, False)) \<and>
   (net API_ENDPOINT = Responds t r \<and> \<not> ok r
      \<longrightarrow> fetchCameras_api net = (Rejected (HttpError (status r) (statusText r)), False)) \<and>
   (net API_ENDPOINT = Responds t r \<and> ok r \<and> body r = Complete t' None
      \<longrightarrow> fetchCameras_api net = (Rejected SyntaxError, False)) \<and>
   (net API_ENDPOINT = Responds t r \<and> ok r \<and> body r = Complete t' (Some cameras)
      \<longrightarrow> fetchCameras_api net = (Fulfilled cameras, False))"
proof -
  have a: "fetchCameras_part_000 net = (Rejected AbortError, True)"
    if "net API_ENDPOINT = Silent \<or>
        (\<exists>t. FETCH_TIMEOUT_MS \<le> t \<and>
             (net API_ENDPOINT = Fails t \<or> (\<exists>r. net API_ENDPOINT = Responds t r)))"
    using that by (auto simp: fetchCameras_part_000_cases)
  have s: "snd (fetchCameras_api net) = False"
    by (simp add: fetchCameras_api_cases split: network.splits)
  show ?thesis
    using a s
    by (simp add: FETCH_TIMEOUT_MS_def fetchCameras_part_000_cases fetchCameras_api_cases
          json_plain_def)
qed

theorem C4_witness:
  "fetchCameras_part_000
     (\<lambda>url. Responds 12000 \<lparr> ok = True, status = 200, statusText = str ''OK'',
                              body = Complete 12010 (Some []) \<rparr>)
   = (Rejected AbortError, True) \<and>
   fetchCameras_part_000
     (\<lambda>url. Responds 40 \<lparr> ok = False, status = 503,
                           statusText = str ''Service Unavailable'',
                           body = Complete 50 None \<rparr>)
   = (Rejected (HttpError 503 (str ''Service Unavailable'')), False) \<and>
   fetchCameras_api
     (\<lambda>url. Responds 12000 \<lparr> ok = True, status = 200, statusText = str ''OK'',
                              body = Complete 12010 (Some []) \<rparr>)
   = (Fulfilled [], False)"
proof -
  let ?good = "\<lparr> ok = True, status = 200, statusText = str ''OK'',
                 body = Complete 12010 (Some ([] :: TrafficCamera list)) \<rparr>"
  let ?late = "\<lambda>url::jsstring. Responds 12000 ?good"
  let ?bad = "\<lparr> ok = False, status = 503, statusText = str ''Service Unavailable'',
                body = (Complete 50 None :: TrafficCamera list body) \<rparr>"
  let ?down = "\<lambda>url::jsstring. Responds 40 ?bad"
  note T = C4_fetchCameras_failures
  have "FETCH_TIMEOUT_MS \<le> 12000" by (simp add: FETCH_TIMEOUT_MS_def)
  then have 1: "fetchCameras_part_000 ?late = (Rejected AbortError, True)"
    using T [of ?late] by blast
  have "40 < FETCH_TIMEOUT_MS \<and> \<not> ok ?bad" by (simp add: FETCH_TIMEOUT_MS_def)
  then have 2: "fetchCameras_part_000 ?down
                  = (Rejected (HttpError (status ?bad) (statusText ?bad)), False)"
    using T [of ?down 40 ?bad] by blast
  have "ok ?good \<and> body ?good = Complete 12010 (Some [])" by simp
  then have 3: "fetchCameras_api ?late = (Fulfilled [], False)"
    using T [of ?late 12000 ?good 12010 "[]"] by blast
  from 1 2 3 show ?thesis by simp
qed

text \<open>
  The claim as first stated fails in both directions: the adapter with the
  timer is rejected within the time limit, with a successful response or none,
  when the connection fails or the body is not JSON; and the adapter of
  src/services/api.ts waits for ever on a silent network and accepts a
  response that takes a minute.
\<close>

theorem C4_counterexample:
  "fetchCameras_part_000 (\<lambda>url. Fails 40) = (Rejected NetworkError, False) \<and>
   fetchCameras_part_000
     (\<lambda>url. Responds 40 \<lparr> ok = True, status = 200, statusText = str ''OK'',
                           body = Complete 50 None \<rparr>)
   = (Rejected SyntaxError, False) \<and>
   fetchCameras_api (\<lambda>url. Silent) = (Pending, False) \<and>
   fetchCameras_api
     (\<lambda>url. Responds 60000 \<lparr> ok = True, status = 200, statusText = str ''OK'',
                              body = Complete 60010 (Some []) \<rparr>)
   = (Fulfilled [], False)"
  by (simp add: socrata_eval)

end
